theory Spec2Isabelle
  imports Main "HOL-Library.Multiset"
begin

section \<open>JavaScript strings\<close>

text \<open>
  The module \<^verbatim>\<open>console-log-capture.js\<close> works on JavaScript strings. They are modelled
  as \<^typ>\<open>string\<close> (lists of characters). Every string operation the module uses
  (\<^verbatim>\<open>replace\<close> with a string pattern, \<^verbatim>\<open>startsWith\<close>, \<^verbatim>\<open>padStart\<close>, \<^verbatim>\<open>slice(0, n)\<close>,
  concatenation) is written out below on lists.
\<close>

definition nl :: string where
  "nl = [CHR 0x0A]"

definition tab :: string where
  "tab = [CHR 0x09]"

definition startsWith :: "string \<Rightarrow> string \<Rightarrow> bool" where
  "startsWith s p = (take (length p) s = p)"

text \<open>
  \<^verbatim>\<open>s.replace(pat, rep)\<close> with a string pattern replaces the first occurrence of
  \<^verbatim>\<open>pat\<close> in \<^verbatim>\<open>s\<close>, wherever it is, and leaves \<^verbatim>\<open>s\<close> alone when there is none. The
  module only passes the replacements \<^verbatim>\<open>''\<close> and \<^verbatim>\<open>' '\<close>, which hold no \<^verbatim>\<open>$\<close> pattern.
\<close>

fun replace_first :: "string \<Rightarrow> string \<Rightarrow> string \<Rightarrow> string" where
  "replace_first pat rep [] = (if pat = [] then rep else [])"
| "replace_first pat rep (c # cs) =
     (if startsWith (c # cs) pat then rep @ drop (length pat) (c # cs)
      else c # replace_first pat rep cs)"

text \<open>\<^verbatim>\<open>s.replace(/^\//, '')\<close>: one slash at the very front is removed.\<close>

definition strip_leading_slash :: "string \<Rightarrow> string" where
  "strip_leading_slash s =
     (case s of [] \<Rightarrow> [] | c # cs \<Rightarrow> if c = CHR ''/'' then cs else s)"

definition padStart :: "nat \<Rightarrow> char \<Rightarrow> string \<Rightarrow> string" where
  "padStart n c s = replicate (n - length s) c @ s"

text \<open>
  \<^verbatim>\<open>toUpperCase\<close> and \<^verbatim>\<open>toLowerCase\<close> on the letters of ASCII. The strings they are
  applied to are Playwright's console message types and the host's clock text, which
  are ASCII.
\<close>

definition lower_letters :: string where
  "lower_letters = ''abcdefghijklmnopqrstuvwxyz''"

definition upper_letters :: string where
  "upper_letters = ''ABCDEFGHIJKLMNOPQRSTUVWXYZ''"

definition upper_char :: "char \<Rightarrow> char" where
  "upper_char c =
     (case map_of (zip lower_letters upper_letters) c of Some u \<Rightarrow> u | None \<Rightarrow> c)"

definition lower_char :: "char \<Rightarrow> char" where
  "lower_char c =
     (case map_of (zip upper_letters lower_letters) c of Some l \<Rightarrow> l | None \<Rightarrow> c)"

definition toUpperCase :: "string \<Rightarrow> string" where
  "toUpperCase s = map upper_char s"

definition toLowerCase :: "string \<Rightarrow> string" where
  "toLowerCase s = map lower_char s"

section \<open>JavaScript numbers\<close>

text \<open>Decimal digits of a natural number, as the template literal prints an integer.\<close>

definition digit_char :: "nat \<Rightarrow> char" where
  "digit_char d = ''0123456789'' ! d"

function digits :: "nat \<Rightarrow> string" where
  "digits n =
     (if n < 10 then [digit_char n] else digits (n div 10) @ [digit_char (n mod 10)])"
  by pat_completeness auto
termination
  by (relation "measure id") auto

declare digits.simps [simp del]

definition show_int :: "int \<Rightarrow> string" where
  "show_int i = (if i < 0 then ''-'' @ digits (nat (- i)) else digits (nat i))"

definition is_digit :: "char \<Rightarrow> bool" where
  "is_digit c = (c \<in> set ''0123456789'')"

text \<open>
  The line and column handed to \<^verbatim>\<open>_formatLocation\<close> are numbers when they come from a
  console message's location, strings of decimal digits when they come from the
  \<^verbatim>\<open>\d+\<close> groups of the stack-frame pattern, and may be missing (\<^verbatim>\<open>null\<close>, the default
  of \<^verbatim>\<open>colNum\<close>, or \<^verbatim>\<open>undefined\<close>).
\<close>

datatype jsval = Num int | Digits string | Absent

text \<open>\<^verbatim>\<open>v > 0\<close>: a digit string is converted to the number it spells.\<close>

fun positive :: "jsval \<Rightarrow> bool" where
  "positive (Num n) = (0 < n)"
| "positive (Digits ds) = list_ex (\<lambda>c. c \<noteq> CHR ''0'') ds"
| "positive Absent = False"

text \<open>The truth value of \<^verbatim>\<open>v\<close> in a condition: \<^verbatim>\<open>0\<close>, \<^verbatim>\<open>''\<close>, \<^verbatim>\<open>null\<close> and \<^verbatim>\<open>undefined\<close> are false.\<close>

fun truthy :: "jsval \<Rightarrow> bool" where
  "truthy (Num n) = (n \<noteq> 0)"
| "truthy (Digits ds) = (ds \<noteq> [])"
| "truthy Absent = False"

text \<open>
  \<^verbatim>\<open>${v}\<close> in a template literal. \<^verbatim>\<open>_formatLocation\<close> prints a line only when it is
  positive and a column only when it is true, so a missing value is never printed.
\<close>

fun show_jsval :: "jsval \<Rightarrow> string" where
  "show_jsval (Num n) = show_int n"
| "show_jsval (Digits ds) = ds"
| "show_jsval Absent = ''null''"

subsection \<open>Elapsed seconds: division by 1000 and \<^verbatim>\<open>toFixed\<close>\<close>

text \<open>
  \<^verbatim>\<open>Date.now()\<close> is an integer number of milliseconds, so an elapsed time is an integer
  \<open>e\<close>, and \<^verbatim>\<open>(e / 1000).toFixed(f)\<close> first rounds the quotient to the nearest double
  (ties to the even mantissa) and then prints the integer \<open>n\<close> for which \<open>n / 10^f\<close> is
  nearest to that double, the larger one on a tie. Both steps are written with integer
  arithmetic: \<open>div1000 p\<close> is the pair \<open>(m, s)\<close> such that the double is \<open>m / 2^s\<close>, with
  \<open>m\<close> a 53-bit mantissa. The model is exact for \<open>p < 2^53\<close>, where every reading of
  the millisecond clock lies.
\<close>

function bitlen :: "nat \<Rightarrow> nat" where
  "bitlen n = (if n = 0 then 0 else Suc (bitlen (n div 2)))"
  by pat_completeness auto
termination
  by (relation "measure id") auto

declare bitlen.simps [simp del]

definition div1000 :: "nat \<Rightarrow> nat \<times> nat" where
  "div1000 p =
     (let s0 = 62 - bitlen p;
          s = (if 1000 * 2 ^ 52 \<le> p * 2 ^ s0 then s0 else s0 + 1);
          q = p * 2 ^ s div 1000;
          r = p * 2 ^ s mod 1000;
          m = (if 500 < r \<or> (r = 500 \<and> odd q) then q + 1 else q)
      in (m, s))"

definition round_fixed :: "nat \<Rightarrow> nat \<times> nat \<Rightarrow> nat" where
  "round_fixed f x = (case x of (m, s) \<Rightarrow> (2 * m * 10 ^ f + 2 ^ s) div 2 ^ (s + 1))"

text \<open>
  The digits of \<open>n\<close> with the decimal point before the last \<open>f\<close> of them, zeros added
  in front when there are not more than \<open>f\<close> digits.
\<close>

definition fixed_digits :: "nat \<Rightarrow> nat \<Rightarrow> string" where
  "fixed_digits f n =
     (if f = 0 then digits n
      else let m = replicate (f + 1 - length (digits n)) (CHR ''0'') @ digits n
           in take (length m - f) m @ ''.'' @ drop (length m - f) m)"

definition seconds_toFixed :: "nat \<Rightarrow> int \<Rightarrow> string" where
  "seconds_toFixed f e =
     (if e < 0 then ''-'' @ fixed_digits f (round_fixed f (div1000 (nat (- e))))
      else fixed_digits f (round_fixed f (div1000 (nat e))))"

section \<open>The stack-frame pattern\<close>

text \<open>
  The uncaught-exception listener searches \<^verbatim>\<open>error.stack || error.message\<close> with the
  regular expression \<^verbatim>\<open>/at (.*?):(\d+):(\d+)/\<close>. A match starts at the leftmost
  \<^verbatim>\<open>"at "\<close> from which the rest can match; the lazy group takes as few characters as
  possible (none of them a line feed or a carriage return, which \<^verbatim>\<open>.\<close> refuses), and
  each \<^verbatim>\<open>\d+\<close> takes a whole run of digits: a shorter run would be followed by a digit,
  not by the colon the pattern asks for.
\<close>

text \<open>\<^verbatim>\<open>:(\d+):(\d+)\<close> at the front of the string.\<close>

definition frame_tail :: "string \<Rightarrow> (string \<times> string) option" where
  "frame_tail s =
     (case s of
        [] \<Rightarrow> None
      | c # r \<Rightarrow>
          if c \<noteq> CHR '':'' \<or> takeWhile is_digit r = [] then None
          else (case dropWhile is_digit r of
                  [] \<Rightarrow> None
                | d # r' \<Rightarrow>
                    if d \<noteq> CHR '':'' \<or> takeWhile is_digit r' = [] then None
                    else Some (takeWhile is_digit r, takeWhile is_digit r')))"

text \<open>\<^verbatim>\<open>(.*?):(\d+):(\d+)\<close> at the front of the string; \<open>acc\<close> is the group so far, reversed.\<close>

fun lazy_file :: "string \<Rightarrow> string \<Rightarrow> (string \<times> string \<times> string) option" where
  "lazy_file acc [] = None"
| "lazy_file acc (c # cs) =
     (case frame_tail (c # cs) of
        Some (l, k) \<Rightarrow> Some (rev acc, l, k)
      | None \<Rightarrow>
          if c = CHR 0x0A \<or> c = CHR 0x0D then None else lazy_file (c # acc) cs)"

fun match_frame :: "string \<Rightarrow> (string \<times> string \<times> string) option" where
  "match_frame [] = None"
| "match_frame (c # cs) =
     (if startsWith (c # cs) ''at '' then
        (case lazy_file [] (drop 3 (c # cs)) of
           Some g \<Rightarrow> Some g
         | None \<Rightarrow> match_frame cs)
      else match_frame cs)"

section \<open>The data model\<close>

datatype level = ERROR | WARN | INFO

fun level_str :: "level \<Rightarrow> string" where
  "level_str ERROR = ''ERROR''"
| "level_str WARN = ''WARN''"
| "level_str INFO = ''INFO''"

text \<open>
  One entry of \<^verbatim>\<open>this.messages\<close>, as \<^verbatim>\<open>_logMessage\<close> builds it. The source's field
  \<^verbatim>\<open>text\<close> is \<open>msg_text\<close> here.
\<close>

record msg =
  timestamp :: string
  level :: level
  location :: string
  msg_text :: string
  time :: int

text \<open>
  The fields of a \<^verbatim>\<open>ConsoleCapture\<close> instance, and with them the three things outside
  the instance that its code reads or writes: the \<^verbatim>\<open>baseUrl\<close> property of the caller's
  options object (which the navigation listener of \<^verbatim>\<open>attachConsoleCapture\<close> assigns),
  whether that one-shot listener is still registered, and the lines written with
  \<^verbatim>\<open>console.log\<close>.
\<close>

record capture =
  baseUrl :: string
  autoLog :: bool
  verbose :: bool
  saveToFile :: bool
  filePrefix :: string
  startTime :: int
  messages :: "msg list"
  errors :: nat
  warnings :: nat
  reportedErrors :: "string set"
  options_baseUrl :: "string option"
  navListener :: bool
  console :: "string list"

text \<open>The options object; \<open>None\<close> is a property the caller did not set.\<close>

record options =
  opt_baseUrl :: "string option"
  opt_autoLog :: "bool option"
  opt_verbose :: "bool option"
  opt_saveToFile :: "bool option"
  opt_filePrefix :: "string option"

text \<open>
  Functions of the JavaScript host that the module calls and the repository does not
  define: \<^verbatim>\<open>new URL(url)\<close>, giving the protocol and the host of a URL or \<open>None\<close> where
  it throws, and \<^verbatim>\<open>toLocaleTimeString('en-US', {hour: '2-digit', minute: '2-digit',
  hour12: true})\<close> of an instant, which depends on the host's time zone.
\<close>

record platform =
  parse_url :: "string \<Rightarrow> (string \<times> string) option"
  toLocaleTimeString :: "int \<Rightarrow> string"

text \<open>UTF-8 of the glyphs the module prints.\<close>

definition glyph_cross :: string where
  "glyph_cross = [CHR 0xE2, CHR 0x9D, CHR 0x8C]"

definition glyph_warning :: string where
  "glyph_warning = [CHR 0xE2, CHR 0x9A, CHR 0xA0, CHR 0xEF, CHR 0xB8, CHR 0x8F]"

definition glyph_info :: string where
  "glyph_info = [CHR 0xE2, CHR 0x84, CHR 0xB9, CHR 0xEF, CHR 0xB8, CHR 0x8F]"

definition glyph_clapper :: string where
  "glyph_clapper = [CHR 0xF0, CHR 0x9F, CHR 0x8E, CHR 0xAC]"

definition show_bool :: "bool \<Rightarrow> string" where
  "show_bool b = (if b then ''true'' else ''false'')"

section \<open>Construction\<close>

text \<open>
  The constructor, with \<open>t0\<close> the reading of \<^verbatim>\<open>Date.now()\<close> it stores. It copies
  \<^verbatim>\<open>options.baseUrl || ''\<close> into the instance. \<^verbatim>\<open>_setupListeners\<close> registers the three
  listeners (the function \<open>deliver\<close> below) and prints the banner when \<^verbatim>\<open>autoLog\<close> is on.
\<close>

definition ConsoleCapture :: "options \<Rightarrow> int \<Rightarrow> capture" where
  "ConsoleCapture opts t0 =
     (let al = (opt_autoLog opts \<noteq> Some False);
          vb = (opt_verbose opts = Some True)
      in \<lparr> baseUrl = (case opt_baseUrl opts of Some b \<Rightarrow> b | None \<Rightarrow> []),
           autoLog = al,
           verbose = vb,
           saveToFile = (opt_saveToFile opts = Some True),
           filePrefix = (case opt_filePrefix opts of
                           Some p \<Rightarrow> if p = [] then ''console-capture'' else p
                         | None \<Rightarrow> ''console-capture''),
           startTime = t0,
           messages = [],
           errors = 0,
           warnings = 0,
           reportedErrors = {},
           options_baseUrl = opt_baseUrl opts,
           navListener = False,
           console =
             (if al then
                [nl @ glyph_clapper @ '' Console capture started (autoLog: '' @ show_bool al
                   @ '', verbose: '' @ show_bool vb @ '')'' @ nl]
              else []) \<rparr>)"

text \<open>
  \<^verbatim>\<open>attachConsoleCapture\<close>: when \<^verbatim>\<open>options.baseUrl\<close> is missing or empty it registers
  the one-shot \<^verbatim>\<open>framenavigated\<close> listener, then constructs the instance.
\<close>

definition attachConsoleCapture :: "options \<Rightarrow> int \<Rightarrow> capture" where
  "attachConsoleCapture opts t0 =
     (ConsoleCapture opts t0)
       \<lparr> navListener := (case opt_baseUrl opts of Some b \<Rightarrow> b = [] | None \<Rightarrow> True) \<rparr>"

definition captureConsole :: "int \<Rightarrow> capture" where
  "captureConsole t0 =
     attachConsoleCapture
       \<lparr> opt_baseUrl = None, opt_autoLog = Some True, opt_verbose = None,
         opt_saveToFile = None, opt_filePrefix = None \<rparr> t0"

section \<open>Records and their timestamps\<close>

text \<open>\<^verbatim>\<open>_getTimestamp\<close>, with \<open>now\<close> the reading of \<^verbatim>\<open>Date.now()\<close> it takes.\<close>

definition getTimestamp :: "capture \<Rightarrow> int \<Rightarrow> string" where
  "getTimestamp s now =
     ''['' @ padStart 5 (CHR ''0'') (seconds_toFixed 2 (now - startTime s)) @ '']''"

text \<open>
  \<^verbatim>\<open>_formatLocation(url, lineNum, colNum)\<close>; \<open>None\<close> is a missing \<^verbatim>\<open>url\<close>. Where
  \<^verbatim>\<open>baseUrl\<close> is not empty its first occurrence in \<^verbatim>\<open>url\<close> is cut out and a leading
  slash of what remains is dropped.
\<close>

definition formatLocation :: "capture \<Rightarrow> string option \<Rightarrow> jsval \<Rightarrow> jsval \<Rightarrow> string" where
  "formatLocation s url lineNum colNum =
     (case url of
        None \<Rightarrow> []
      | Some u \<Rightarrow>
          if u = [] then []
          else
            let file = (if baseUrl s \<noteq> []
                        then strip_leading_slash (replace_first (baseUrl s) [] u)
                        else u)
            in if positive lineNum then
                 (if truthy colNum
                  then file @ '':'' @ show_jsval lineNum @ '':'' @ show_jsval colNum
                  else file @ '':'' @ show_jsval lineNum)
               else file)"

definition emoji :: "level \<Rightarrow> string" where
  "emoji lv = (if lv = ERROR then glyph_cross else if lv = WARN then glyph_warning else glyph_info)"

text \<open>
  \<^verbatim>\<open>_logMessage\<close> reads the clock twice: \<open>fst clk\<close> inside \<^verbatim>\<open>_getTimestamp\<close> and
  \<open>snd clk\<close> for the field \<^verbatim>\<open>time\<close>. It appends the record and, with \<^verbatim>\<open>autoLog\<close>,
  prints one line.
\<close>

definition logMessage :: "level \<Rightarrow> string \<Rightarrow> string \<Rightarrow> int \<times> int \<Rightarrow> capture \<Rightarrow> capture" where
  "logMessage lv loc txt clk s =
     (let m = \<lparr> timestamp = getTimestamp s (fst clk), level = lv, location = loc,
                msg_text = txt, time = snd clk \<rparr>;
          s' = s \<lparr> messages := messages s @ [m] \<rparr>
      in if autoLog s then
           s' \<lparr> console := console s @
                  [emoji lv @ '' '' @ timestamp m @ '' '' @ level_str lv @ '':''
                     @ (if loc \<noteq> [] then tab @ loc else []) @ tab @ txt] \<rparr>
         else s')"

section \<open>The listeners\<close>

text \<open>
  What the page delivers: a console message (its type, the url, line and column of
  its location, its text), an uncaught exception (its stack, if it has one, and its
  message), a response (url, status, status text), and a frame navigation (whether
  the frame is the page's main frame, and the frame's url).
\<close>

datatype event =
    Console string "string option" jsval jsval string
  | PageError "string option" string
  | Response string int string
  | FrameNavigated bool string

definition on_console ::
  "string \<Rightarrow> string option \<Rightarrow> jsval \<Rightarrow> jsval \<Rightarrow> string \<Rightarrow> int \<times> int \<Rightarrow> capture \<Rightarrow> capture" where
  "on_console ty url lineNumber columnNumber txt clk s =
     (if toUpperCase ty = ''ERROR'' then
        logMessage ERROR (formatLocation s url lineNumber columnNumber) txt clk
          (s \<lparr> errors := errors s + 1 \<rparr>)
      else if toUpperCase ty = ''WARNING'' then
        logMessage WARN (formatLocation s url lineNumber columnNumber) txt clk
          (s \<lparr> warnings := warnings s + 1 \<rparr>)
      else
        logMessage INFO (formatLocation s url lineNumber columnNumber) txt clk s)"

definition on_pageerror :: "string option \<Rightarrow> string \<Rightarrow> int \<times> int \<Rightarrow> capture \<Rightarrow> capture" where
  "on_pageerror stack message clk s =
     (let subject = (case stack of
                       None \<Rightarrow> message
                     | Some st \<Rightarrow> if st = [] then message else st);
          s' = s \<lparr> errors := errors s + 1 \<rparr>
      in logMessage ERROR
           (case match_frame subject of
              Some (f, l, c) \<Rightarrow> formatLocation s' (Some f) (Digits l) (Digits c)
            | None \<Rightarrow> [])
           (''Uncaught: '' @ message) clk s')"

definition displayUrl :: "capture \<Rightarrow> string \<Rightarrow> string" where
  "displayUrl s urlPath =
     (if baseUrl s \<noteq> [] then replace_first (baseUrl s) [] urlPath else urlPath)"

definition on_response :: "string \<Rightarrow> int \<Rightarrow> string \<Rightarrow> int \<times> int \<Rightarrow> capture \<Rightarrow> capture" where
  "on_response urlPath status statusText clk s =
     (if 400 \<le> status then
        (if urlPath \<notin> reportedErrors s then
           logMessage ERROR (displayUrl s urlPath)
             (''HTTP '' @ show_int status @ '' ('' @ statusText @ '')'') clk
             (s \<lparr> reportedErrors := insert urlPath (reportedErrors s),
                  errors := errors s + 1 \<rparr>)
         else s)
      else s)"

text \<open>
  The listener that \<^verbatim>\<open>attachConsoleCapture\<close> registers with \<^verbatim>\<open>page.once\<close>: the first
  navigation removes it. It assigns \<^verbatim>\<open>options.baseUrl\<close>. An exception of
  \<^verbatim>\<open>new URL\<close> leaves the listener without an assignment.
\<close>

definition on_framenavigated :: "platform \<Rightarrow> bool \<Rightarrow> string \<Rightarrow> capture \<Rightarrow> capture" where
  "on_framenavigated pf is_main url s =
     (if navListener s then
        (let s' = s \<lparr> navListener := False \<rparr>
         in if is_main \<and> url \<noteq> [] \<and> startsWith url ''http'' then
              (case parse_url pf url of
                 Some (protocol, host) \<Rightarrow>
                   s' \<lparr> options_baseUrl := Some (protocol @ ''//'' @ host) \<rparr>
               | None \<Rightarrow> s')
            else s')
      else s)"

text \<open>
  One delivered event, with the two clock readings a logged record takes. A listener
  that stores no record reads neither of them.
\<close>

fun deliver :: "platform \<Rightarrow> event \<Rightarrow> int \<times> int \<Rightarrow> capture \<Rightarrow> capture" where
  "deliver pf (Console ty url ln cn txt) clk s = on_console ty url ln cn txt clk s"
| "deliver pf (PageError stack message) clk s = on_pageerror stack message clk s"
| "deliver pf (Response url status statusText) clk s = on_response url status statusText clk s"
| "deliver pf (FrameNavigated is_main url) clk s = on_framenavigated pf is_main url s"

section \<open>Dates\<close>

text \<open>
  \<^verbatim>\<open>new Date(t).toISOString()\<close> for \<open>t\<close> milliseconds since the epoch, in UTC:
  \<^verbatim>\<open>YYYY-MM-DDTHH:mm:ss.sssZ\<close>, the year with a sign and six digits outside 0 to 9999.
  \<open>civil z\<close> is the year, month and day of day \<open>z\<close> of the epoch in the proleptic
  Gregorian calendar, counted in 400-year cycles of 146097 days that start on
  March 1st. The instants the module formats are readings of the clock, far inside the
  range in which \<^verbatim>\<open>toISOString\<close> is defined.
\<close>

definition civil :: "int \<Rightarrow> int \<times> int \<times> int" where
  "civil z =
     (let cyc = (z + 719468) div 146097;
          doc = (z + 719468) mod 146097;
          yoc = (doc - doc div 1460 + doc div 36524 - doc div 146096) div 365;
          doy = doc - (365 * yoc + yoc div 4 - yoc div 100);
          mp = (5 * doy + 2) div 153;
          d = doy - (153 * mp + 2) div 5 + 1;
          m = (if mp < 10 then mp + 3 else mp - 9);
          y = yoc + cyc * 400 + (if m \<le> 2 then 1 else 0)
      in (y, m, d))"

definition pad_int :: "nat \<Rightarrow> int \<Rightarrow> string" where
  "pad_int w i = padStart w (CHR ''0'') (digits (nat i))"

definition toISOString :: "int \<Rightarrow> string" where
  "toISOString t =
     (case civil (t div 86400000) of
        (y, m, d) \<Rightarrow>
          let r = t mod 86400000;
              year = (if 0 \<le> y \<and> y \<le> 9999 then pad_int 4 y
                      else (if y < 0 then ''-'' else ''+'') @ pad_int 6 (abs y))
          in year @ ''-'' @ pad_int 2 m @ ''-'' @ pad_int 2 d @ ''T''
               @ pad_int 2 (r div 3600000) @ '':'' @ pad_int 2 (r div 60000 mod 60) @ '':''
               @ pad_int 2 (r div 1000 mod 60) @ ''.'' @ pad_int 3 (r mod 1000) @ ''Z'')"

section \<open>Report and summary\<close>

definition render_line :: "msg \<Rightarrow> string" where
  "render_line m =
     timestamp m @ '' '' @ level_str (level m) @ '':''
       @ (if location m \<noteq> [] then tab @ location m else []) @ tab @ msg_text m @ nl"

definition default_title :: string where
  "default_title = ''Browser Console Log Capture''"

text \<open>The three header lines up to the elapsed time, and from it to the first record.\<close>

definition report_head :: "string option \<Rightarrow> capture \<Rightarrow> string" where
  "report_head title s =
     ''# '' @ (case title of None \<Rightarrow> default_title | Some t \<Rightarrow> t) @ nl
       @ ''# Started: '' @ replace_first ''T'' '' '' (take 19 (toISOString (startTime s)))
       @ '' | Elapsed: ''"

definition report_counts :: "capture \<Rightarrow> string" where
  "report_counts s =
     ''s'' @ nl @ ''# Errors: '' @ digits (errors s) @ '' | Warnings: '' @ digits (warnings s)
       @ '' | Total Messages: '' @ digits (length (messages s)) @ nl @ nl"

definition report_trailer :: "capture \<Rightarrow> string" where
  "report_trailer s =
     (if 0 < errors s
      then nl @ glyph_cross @ '' ERROR: '' @ digits (errors s) @ '' SEVERE logs detected!'' @ nl
      else [])
     @ (if 0 < warnings s
        then glyph_warning @ ''  WARNING: '' @ digits (warnings s) @ '' warning logs detected!'' @ nl
        else [])"

definition report_footer :: "platform \<Rightarrow> int \<Rightarrow> string" where
  "report_footer pf endTime =
     nl @ ''## Console capture complete on '' @ take 10 (toISOString endTime) @ '' @''
       @ replace_first '' '' [] (toLowerCase (toLocaleTimeString pf endTime)) @ '' ##'' @ nl"

text \<open>
  \<^verbatim>\<open>getOutput(title)\<close>, with \<open>fst clk\<close> the reading of \<^verbatim>\<open>Date.now()\<close> for the elapsed
  time and \<open>snd clk\<close> the instant of \<^verbatim>\<open>new Date()\<close>; \<open>None\<close> is a missing title.
  \<^verbatim>\<open>this.messages.sort(...)\<close> sorts the array of the instance itself, stably, on the
  field \<^verbatim>\<open>time\<close>: the function returns the text and the instance after the call.
\<close>

definition getOutput ::
  "platform \<Rightarrow> string option \<Rightarrow> int \<times> int \<Rightarrow> capture \<Rightarrow> string \<times> capture" where
  "getOutput pf title clk s =
     (let sorted = sort_key time (messages s)
      in (report_head title s @ seconds_toFixed 1 (fst clk - startTime s) @ report_counts s
            @ concat (map render_line sorted) @ report_trailer s
            @ report_footer pf (snd clk),
          s \<lparr> messages := sorted \<rparr>))"

text \<open>\<^verbatim>\<open>getSummary()\<close>: messages, errors, warnings, elapsed.\<close>

definition getSummary :: "capture \<Rightarrow> int \<Rightarrow> nat \<times> nat \<times> nat \<times> string" where
  "getSummary s now =
     (length (messages s), errors s, warnings s, seconds_toFixed 1 (now - startTime s))"

subsection \<open>A host in UTC\<close>

text \<open>
  A concrete host for running examples: its time zone is UTC, its clock text is
  \<^verbatim>\<open>hh:mm AM\<close> or \<^verbatim>\<open>hh:mm PM\<close>, and its URL parser takes \<^verbatim>\<open>scheme://host/rest\<close> apart at
  the first slash, question mark or hash after the two slashes.
\<close>

definition utc_time_string :: "int \<Rightarrow> string" where
  "utc_time_string t =
     (let h = t mod 86400000 div 3600000;
          h12 = (if h mod 12 = 0 then 12 else h mod 12)
      in pad_int 2 h12 @ '':'' @ pad_int 2 (t mod 3600000 div 60000)
           @ (if h < 12 then '' AM'' else '' PM''))"

definition plain_url :: "string \<Rightarrow> (string \<times> string) option" where
  "plain_url u =
     (let scheme = takeWhile (\<lambda>c. c \<noteq> CHR '':'') u;
          rest = dropWhile (\<lambda>c. c \<noteq> CHR '':'') u
      in if scheme \<noteq> [] \<and> startsWith rest ''://''
         then Some (scheme @ '':'',
                    takeWhile (\<lambda>c. c \<notin> set ''/?#'') (drop 3 rest))
         else None)"

definition utc_host :: platform where
  "utc_host = \<lparr> parse_url = plain_url, toLocaleTimeString = utc_time_string \<rparr>"

section \<open>The life of an instance\<close>

text \<open>
  After construction an instance sees delivered events and calls of \<^verbatim>\<open>getOutput\<close>, in
  any order. \<open>run\<close> performs a list of them, oldest first.
\<close>

datatype call = Deliver event "int \<times> int" | Render "string option" "int \<times> int"

fun perform :: "platform \<Rightarrow> capture \<Rightarrow> call \<Rightarrow> capture" where
  "perform pf s (Deliver ev clk) = deliver pf ev clk s"
| "perform pf s (Render title clk) = snd (getOutput pf title clk s)"

definition run :: "platform \<Rightarrow> capture \<Rightarrow> call list \<Rightarrow> capture" where
  "run pf s cs = foldl (perform pf) s cs"

text \<open>The number of stored records of one level.\<close>

definition count_level :: "level \<Rightarrow> msg list \<Rightarrow> nat" where
  "count_level lv ms = length (filter (\<lambda>m. level m = lv) ms)"

text \<open>The readings that the delivered events of a list store in the field \<^verbatim>\<open>time\<close>.\<close>

fun record_times :: "call list \<Rightarrow> int list" where
  "record_times [] = []"
| "record_times (Deliver ev clk # cs) = snd clk # record_times cs"
| "record_times (Render title clk # cs) = record_times cs"

subsection \<open>Options used in the examples\<close>

definition quiet :: options where
  "quiet = \<lparr> opt_baseUrl = None, opt_autoLog = Some False, opt_verbose = None,
             opt_saveToFile = None, opt_filePrefix = None \<rparr>"

definition quiet_at :: "string \<Rightarrow> options" where
  "quiet_at b = quiet \<lparr> opt_baseUrl := Some b \<rparr>"

text \<open>Two spellings of one word: equal once both are in lower case.\<close>

definition same_ignoring_case :: "string \<Rightarrow> string \<Rightarrow> bool" where
  "same_ignoring_case a b = (toLowerCase a = toLowerCase b)"

text \<open>\<open>occurs_in pat u\<close>: \<open>pat\<close> stands somewhere in \<open>u\<close>.\<close>

fun occurs_in :: "string \<Rightarrow> string \<Rightarrow> bool" where
  "occurs_in pat [] = (pat = [])"
| "occurs_in pat (c # cs) = (startsWith (c # cs) pat \<or> occurs_in pat cs)"


section \<open>Basic facts\<close>

lemma logMessage_messages:
  "messages (logMessage lv loc txt clk s) =
     messages s @ [\<lparr> timestamp = getTimestamp s (fst clk), level = lv, location = loc,
                     msg_text = txt, time = snd clk \<rparr>]"
  by (simp add: logMessage_def Let_def)

lemma logMessage_fields:
  "errors (logMessage lv loc txt clk s) = errors s"
  "warnings (logMessage lv loc txt clk s) = warnings s"
  "reportedErrors (logMessage lv loc txt clk s) = reportedErrors s"
  "baseUrl (logMessage lv loc txt clk s) = baseUrl s"
  "startTime (logMessage lv loc txt clk s) = startTime s"
  "autoLog (logMessage lv loc txt clk s) = autoLog s"
  "options_baseUrl (logMessage lv loc txt clk s) = options_baseUrl s"
  "navListener (logMessage lv loc txt clk s) = navListener s"
  by (simp_all add: logMessage_def Let_def)

lemma getOutput_snd:
  "snd (getOutput pf title clk s) = s \<lparr> messages := sort_key time (messages s) \<rparr>"
  by (simp add: getOutput_def Let_def)

lemma run_Nil: "run pf s [] = s"
  by (simp add: run_def)

lemma run_Cons: "run pf s (c # cs) = run pf (perform pf s c) cs"
  by (simp add: run_def)

lemma run_append: "run pf s (cs @ ds) = run pf (run pf s cs) ds"
  by (simp add: run_def)

lemma run_snoc: "run pf s (cs @ [c]) = perform pf (run pf s cs) c"
  by (simp add: run_def)

lemma quiet_capture:
  "ConsoleCapture quiet t0 =
     \<lparr> baseUrl = [], autoLog = False, verbose = False, saveToFile = False,
       filePrefix = ''console-capture'', startTime = t0, messages = [], errors = 0,
       warnings = 0, reportedErrors = {}, options_baseUrl = None, navListener = False,
       console = [] \<rparr>"
  by (simp add: ConsoleCapture_def quiet_def)

subsection \<open>Evaluated message types\<close>

lemma upper_log: "toUpperCase ''log'' = ''LOG''"
  by (simp add: toUpperCase_def upper_char_def lower_letters_def upper_letters_def)

lemma upper_warning: "toUpperCase ''warning'' = ''WARNING''"
  by (simp add: toUpperCase_def upper_char_def lower_letters_def upper_letters_def)

lemma upper_error: "toUpperCase ''error'' = ''ERROR''"
  by (simp add: toUpperCase_def upper_char_def lower_letters_def upper_letters_def)

subsection \<open>Evaluated timestamps and numbers\<close>

lemma round_fixed_2_40: "round_fixed 2 (div1000 40) = 4"
  by (simp add: round_fixed_def div1000_def bitlen.simps Let_def)

lemma fixed_digits_2_4: "fixed_digits 2 4 = ''0.04''"
  by (simp add: fixed_digits_def digits.simps digit_char_def Let_def)

lemma stamp_40: "padStart 5 (CHR ''0'') (seconds_toFixed 2 40) = ''00.04''"
  by (simp add: padStart_def seconds_toFixed_def round_fixed_2_40 fixed_digits_2_4)

lemma show_int_404: "show_int 404 = ''404''"
  by (simp add: show_int_def digits.simps digit_char_def)

section \<open>Failed resources are reported once\<close>

lemma on_response_seen: "url \<in> reportedErrors s \<Longrightarrow> on_response url status st clk s = s"
  by (simp add: on_response_def)

lemma deliver_reported_mono: "reportedErrors s \<subseteq> reportedErrors (deliver pf ev clk s)"
  by (cases ev)
     (auto simp: on_console_def on_pageerror_def on_response_def on_framenavigated_def
        logMessage_fields Let_def split: option.splits)

lemma perform_reported_mono: "reportedErrors s \<subseteq> reportedErrors (perform pf s c)"
  by (cases c) (use deliver_reported_mono in \<open>auto simp: getOutput_snd\<close>)

lemma run_reported_mono: "reportedErrors s \<subseteq> reportedErrors (run pf s cs)"
proof (induction cs arbitrary: s)
  case Nil
  show ?case by (simp add: run_Nil)
next
  case (Cons c cs)
  have "reportedErrors s \<subseteq> reportedErrors (perform pf s c)"
    by (rule perform_reported_mono)
  also have "\<dots> \<subseteq> reportedErrors (run pf (perform pf s c) cs)"
    by (rule Cons.IH)
  finally show ?case by (simp add: run_Cons)
qed

section \<open>What each listener changes\<close>

lemma on_console_effect:
  "messages (on_console ty url ln cn txt clk s)
     = messages s @
       [\<lparr> timestamp = getTimestamp s (fst clk),
           level = (if toUpperCase ty = ''ERROR'' then ERROR
                    else if toUpperCase ty = ''WARNING'' then WARN else INFO),
           location = formatLocation s url ln cn, msg_text = txt, time = snd clk \<rparr>]"
  "errors (on_console ty url ln cn txt clk s)
     = (if toUpperCase ty = ''ERROR'' then errors s + 1 else errors s)"
  "warnings (on_console ty url ln cn txt clk s)
     = (if toUpperCase ty = ''ERROR'' then warnings s
        else if toUpperCase ty = ''WARNING'' then warnings s + 1 else warnings s)"
  "reportedErrors (on_console ty url ln cn txt clk s) = reportedErrors s"
  "startTime (on_console ty url ln cn txt clk s) = startTime s"
  "baseUrl (on_console ty url ln cn txt clk s) = baseUrl s"
  by (simp_all add: on_console_def logMessage_messages logMessage_fields getTimestamp_def
        formatLocation_def)

lemma on_pageerror_effect:
  "messages (on_pageerror stack message clk s)
     = messages s @
       [\<lparr> timestamp = getTimestamp s (fst clk), level = ERROR,
           location =
             (case match_frame (case stack of None \<Rightarrow> message
                                | Some st \<Rightarrow> if st = [] then message else st) of
                Some (f, l, c) \<Rightarrow> formatLocation s (Some f) (Digits l) (Digits c)
              | None \<Rightarrow> []),
           msg_text = ''Uncaught: '' @ message, time = snd clk \<rparr>]"
  "errors (on_pageerror stack message clk s) = errors s + 1"
  "warnings (on_pageerror stack message clk s) = warnings s"
  "reportedErrors (on_pageerror stack message clk s) = reportedErrors s"
  "startTime (on_pageerror stack message clk s) = startTime s"
  "baseUrl (on_pageerror stack message clk s) = baseUrl s"
  by (simp_all add: on_pageerror_def logMessage_messages logMessage_fields getTimestamp_def
        formatLocation_def Let_def split: option.splits)

lemma on_response_effect:
  "messages (on_response url status st clk s)
     = (if 400 \<le> status \<and> url \<notin> reportedErrors s then
          messages s @
          [\<lparr> timestamp = getTimestamp s (fst clk), level = ERROR, location = displayUrl s url,
              msg_text = ''HTTP '' @ show_int status @ '' ('' @ st @ '')'', time = snd clk \<rparr>]
        else messages s)"
  "errors (on_response url status st clk s)
     = (if 400 \<le> status \<and> url \<notin> reportedErrors s then errors s + 1 else errors s)"
  "warnings (on_response url status st clk s) = warnings s"
  "reportedErrors (on_response url status st clk s)
     = (if 400 \<le> status then insert url (reportedErrors s) else reportedErrors s)"
  "startTime (on_response url status st clk s) = startTime s"
  "baseUrl (on_response url status st clk s) = baseUrl s"
  by (auto simp: on_response_def logMessage_messages logMessage_fields getTimestamp_def
        displayUrl_def)

lemma on_framenavigated_effect:
  "messages (on_framenavigated pf is_main url s) = messages s"
  "errors (on_framenavigated pf is_main url s) = errors s"
  "warnings (on_framenavigated pf is_main url s) = warnings s"
  "reportedErrors (on_framenavigated pf is_main url s) = reportedErrors s"
  "startTime (on_framenavigated pf is_main url s) = startTime s"
  "baseUrl (on_framenavigated pf is_main url s) = baseUrl s"
  by (simp_all add: on_framenavigated_def Let_def split: option.splits)

lemma attach_quiet:
  "attachConsoleCapture quiet t0 =
     \<lparr> baseUrl = [], autoLog = False, verbose = False, saveToFile = False,
       filePrefix = ''console-capture'', startTime = t0, messages = [], errors = 0,
       warnings = 0, reportedErrors = {}, options_baseUrl = None, navListener = True,
       console = [] \<rparr>"
  by (simp add: attachConsoleCapture_def ConsoleCapture_def quiet_def)

section \<open>Responses below 400\<close>

text \<open>
  C10. A response whose status is below 400 leaves the whole state as it was: no
  record, no change of a counter, and its URL does not enter \<^verbatim>\<open>reportedErrors\<close>. So a
  response of 400 or more that follows for the same URL, not reported before, still
  appends its ERROR record.
\<close>

theorem response_below_400_ignored:
  "status < 400 \<longrightarrow>
     deliver pf (Response url status st) clk s = s
   \<and> (400 \<le> status' \<and> url \<notin> reportedErrors s \<longrightarrow>
        messages (deliver pf (Response url status' st') clk'
                   (deliver pf (Response url status st) clk s))
        = messages s @ [\<lparr> timestamp = getTimestamp s (fst clk'), level = ERROR,
                        location = displayUrl s url,
                        msg_text = ''HTTP '' @ show_int status' @ '' ('' @ st' @ '')'',
                        time = snd clk' \<rparr>])"
  by (auto simp: on_response_def logMessage_messages getTimestamp_def displayUrl_def)

theorem response_below_400_ignored_witness:
  "(200::int) < 400
   \<and> deliver utc_host (Response ''/a.js'' 200 ''OK'') (10, 10) (ConsoleCapture quiet 0)
       = ConsoleCapture quiet 0
   \<and> (400::int) \<le> 404
   \<and> ''/a.js'' \<notin> reportedErrors (ConsoleCapture quiet 0)
   \<and> messages (deliver utc_host (Response ''/a.js'' 404 ''Not Found'') (40, 41)
                 (deliver utc_host (Response ''/a.js'' 200 ''OK'') (10, 10)
                    (ConsoleCapture quiet 0)))
       = [\<lparr> timestamp = ''[00.04]'', level = ERROR, location = ''/a.js'',
             msg_text = ''HTTP 404 (Not Found)'', time = 41 \<rparr>]"
  using response_below_400_ignored
      [where status = 200 and pf = utc_host and url = "''/a.js''" and st = "''OK''"
         and clk = "(10, 10)" and s = "ConsoleCapture quiet 0" and status' = 404
         and st' = "''Not Found''" and clk' = "(40, 41)"]
  by (simp add: quiet_capture getTimestamp_def stamp_40 show_int_404 displayUrl_def
        on_response_def logMessage_def)

section \<open>The counters count the records\<close>

lemma count_level_snoc:
  "count_level lv (ms @ [m]) = count_level lv ms + (if level m = lv then 1 else 0)"
  by (simp add: count_level_def)

lemma count_level_sort: "count_level lv (sort_key f ms) = count_level lv ms"
  by (simp add: count_level_def filter_sort)

lemma deliver_tallies:
  assumes "errors s = count_level ERROR (messages s)"
    and "warnings s = count_level WARN (messages s)"
  shows "errors (deliver pf ev clk s) = count_level ERROR (messages (deliver pf ev clk s))
       \<and> warnings (deliver pf ev clk s) = count_level WARN (messages (deliver pf ev clk s))"
  using assms
  by (cases ev)
     (simp_all add: on_console_effect on_pageerror_effect on_response_effect
        on_framenavigated_effect count_level_snoc)

lemma perform_tallies:
  assumes "errors s = count_level ERROR (messages s)"
    and "warnings s = count_level WARN (messages s)"
  shows "errors (perform pf s c) = count_level ERROR (messages (perform pf s c))
       \<and> warnings (perform pf s c) = count_level WARN (messages (perform pf s c))"
proof (cases c)
  case (Deliver ev clk)
  then show ?thesis using deliver_tallies [OF assms] by simp
next
  case (Render title clk)
  then show ?thesis using assms by (simp add: getOutput_snd count_level_sort)
qed

lemma run_tallies:
  "errors s = count_level ERROR (messages s) \<Longrightarrow>
   warnings s = count_level WARN (messages s) \<Longrightarrow>
   errors (run pf s cs) = count_level ERROR (messages (run pf s cs))
   \<and> warnings (run pf s cs) = count_level WARN (messages (run pf s cs))"
proof (induction cs arbitrary: s)
  case Nil
  then show ?case by (simp add: run_Nil)
next
  case (Cons c cs)
  show ?case
    unfolding run_Cons
    using perform_tallies [OF Cons.prems] Cons.IH by blast
qed

lemma deliver_counters_mono:
  "errors s \<le> errors (deliver pf ev clk s) \<and> warnings s \<le> warnings (deliver pf ev clk s)"
  by (cases ev)
     (simp_all add: on_console_effect on_pageerror_effect on_response_effect
        on_framenavigated_effect)

lemma perform_counters_mono:
  "errors s \<le> errors (perform pf s c) \<and> warnings s \<le> warnings (perform pf s c)"
  by (cases c) (use deliver_counters_mono in \<open>auto simp: getOutput_snd\<close>)

lemma run_counters_mono:
  "errors s \<le> errors (run pf s cs) \<and> warnings s \<le> warnings (run pf s cs)"
proof (induction cs arbitrary: s)
  case Nil
  show ?case by (simp add: run_Nil)
next
  case (Cons c cs)
  from perform_counters_mono [of s pf c] Cons.IH [of "perform pf s c"]
  show ?case unfolding run_Cons by linarith
qed

lemma fresh_tallies:
  "errors (attachConsoleCapture opts t0)
     = count_level ERROR (messages (attachConsoleCapture opts t0))"
  "warnings (attachConsoleCapture opts t0)
     = count_level WARN (messages (attachConsoleCapture opts t0))"
  "errors (ConsoleCapture opts t0) = count_level ERROR (messages (ConsoleCapture opts t0))"
  "warnings (ConsoleCapture opts t0) = count_level WARN (messages (ConsoleCapture opts t0))"
  by (simp_all add: attachConsoleCapture_def ConsoleCapture_def count_level_def Let_def)

text \<open>
  C2. From construction on (by \<^verbatim>\<open>attachConsoleCapture\<close> or by the constructor itself),
  after every delivered event and every call of \<^verbatim>\<open>getOutput\<close>, in any order,
  \<^verbatim>\<open>errors\<close> is the number of stored records of level ERROR and \<^verbatim>\<open>warnings\<close> the
  number of level WARN; and from any state, neither counter is smaller after more
  events and calls than it was before them.
\<close>

theorem tallies_count_records:
  "errors (run pf (attachConsoleCapture opts t0) cs)
     = count_level ERROR (messages (run pf (attachConsoleCapture opts t0) cs))
   \<and> warnings (run pf (attachConsoleCapture opts t0) cs)
     = count_level WARN (messages (run pf (attachConsoleCapture opts t0) cs))
   \<and> errors (run pf (ConsoleCapture opts t0) cs)
     = count_level ERROR (messages (run pf (ConsoleCapture opts t0) cs))
   \<and> warnings (run pf (ConsoleCapture opts t0) cs)
     = count_level WARN (messages (run pf (ConsoleCapture opts t0) cs))
   \<and> errors (run pf s cs) \<le> errors (run pf s (cs @ ds))
   \<and> warnings (run pf s cs) \<le> warnings (run pf s (cs @ ds))"
  using run_tallies [OF fresh_tallies(1,2), of pf opts t0 cs]
    run_tallies [OF fresh_tallies(3,4), of pf opts t0 cs]
    run_counters_mono [of "run pf s cs" pf ds]
  by (simp add: run_append)

theorem tallies_count_records_witness:
  "errors (run utc_host (attachConsoleCapture quiet 0)
             [Deliver (Console ''error'' None Absent Absent ''boom'') (5, 5),
              Deliver (Response ''/a.js'' 500 ''Server Error'') (6, 6),
              Render None (7, 7),
              Deliver (Console ''warning'' None Absent Absent ''hm'') (8, 8)]) = 2
   \<and> count_level ERROR (messages (run utc_host (attachConsoleCapture quiet 0)
             [Deliver (Console ''error'' None Absent Absent ''boom'') (5, 5),
              Deliver (Response ''/a.js'' 500 ''Server Error'') (6, 6),
              Render None (7, 7),
              Deliver (Console ''warning'' None Absent Absent ''hm'') (8, 8)])) = 2
   \<and> warnings (run utc_host (attachConsoleCapture quiet 0)
             [Deliver (Console ''error'' None Absent Absent ''boom'') (5, 5),
              Deliver (Response ''/a.js'' 500 ''Server Error'') (6, 6),
              Render None (7, 7),
              Deliver (Console ''warning'' None Absent Absent ''hm'') (8, 8)]) = 1
   \<and> count_level WARN (messages (run utc_host (attachConsoleCapture quiet 0)
             [Deliver (Console ''error'' None Absent Absent ''boom'') (5, 5),
              Deliver (Response ''/a.js'' 500 ''Server Error'') (6, 6),
              Render None (7, 7),
              Deliver (Console ''warning'' None Absent Absent ''hm'') (8, 8)])) = 1"
proof -
  have e: "errors (run utc_host (attachConsoleCapture quiet 0)
             [Deliver (Console ''error'' None Absent Absent ''boom'') (5, 5),
              Deliver (Response ''/a.js'' 500 ''Server Error'') (6, 6),
              Render None (7, 7),
              Deliver (Console ''warning'' None Absent Absent ''hm'') (8, 8)]) = 2"
    by (simp add: run_def on_console_effect on_response_effect getOutput_snd attach_quiet
          upper_error upper_warning)
  have w: "warnings (run utc_host (attachConsoleCapture quiet 0)
             [Deliver (Console ''error'' None Absent Absent ''boom'') (5, 5),
              Deliver (Response ''/a.js'' 500 ''Server Error'') (6, 6),
              Render None (7, 7),
              Deliver (Console ''warning'' None Absent Absent ''hm'') (8, 8)]) = 1"
    by (simp add: run_def on_console_effect on_response_effect getOutput_snd attach_quiet
          upper_error upper_warning)
  show ?thesis
    using e w tallies_count_records
      [where pf = utc_host and opts = quiet and ?t0.0 = 0
         and cs = "[Deliver (Console ''error'' None Absent Absent ''boom'') (5, 5),
              Deliver (Response ''/a.js'' 500 ''Server Error'') (6, 6),
              Render None (7, 7),
              Deliver (Console ''warning'' None Absent Absent ''hm'') (8, 8)]"]
    by simp
qed

section \<open>Console messages\<close>

lemma upper_char_eq:
  "upper_char c = CHR ''E'' \<longleftrightarrow> c = CHR ''e'' \<or> c = CHR ''E''"
  "upper_char c = CHR ''R'' \<longleftrightarrow> c = CHR ''r'' \<or> c = CHR ''R''"
  "upper_char c = CHR ''O'' \<longleftrightarrow> c = CHR ''o'' \<or> c = CHR ''O''"
  "upper_char c = CHR ''W'' \<longleftrightarrow> c = CHR ''w'' \<or> c = CHR ''W''"
  "upper_char c = CHR ''A'' \<longleftrightarrow> c = CHR ''a'' \<or> c = CHR ''A''"
  "upper_char c = CHR ''N'' \<longleftrightarrow> c = CHR ''n'' \<or> c = CHR ''N''"
  "upper_char c = CHR ''I'' \<longleftrightarrow> c = CHR ''i'' \<or> c = CHR ''I''"
  "upper_char c = CHR ''G'' \<longleftrightarrow> c = CHR ''g'' \<or> c = CHR ''G''"
  by (simp_all add: upper_char_def lower_letters_def upper_letters_def)

lemma lower_char_eq:
  "lower_char c = CHR ''e'' \<longleftrightarrow> c = CHR ''e'' \<or> c = CHR ''E''"
  "lower_char c = CHR ''r'' \<longleftrightarrow> c = CHR ''r'' \<or> c = CHR ''R''"
  "lower_char c = CHR ''o'' \<longleftrightarrow> c = CHR ''o'' \<or> c = CHR ''O''"
  "lower_char c = CHR ''w'' \<longleftrightarrow> c = CHR ''w'' \<or> c = CHR ''W''"
  "lower_char c = CHR ''a'' \<longleftrightarrow> c = CHR ''a'' \<or> c = CHR ''A''"
  "lower_char c = CHR ''n'' \<longleftrightarrow> c = CHR ''n'' \<or> c = CHR ''N''"
  "lower_char c = CHR ''i'' \<longleftrightarrow> c = CHR ''i'' \<or> c = CHR ''I''"
  "lower_char c = CHR ''g'' \<longleftrightarrow> c = CHR ''g'' \<or> c = CHR ''G''"
  by (simp_all add: lower_char_def lower_letters_def upper_letters_def)

lemma lower_error: "toLowerCase ''error'' = ''error''"
  by (simp add: toLowerCase_def lower_char_eq)

lemma lower_warning: "toLowerCase ''warning'' = ''warning''"
  by (simp add: toLowerCase_def lower_char_eq)

text \<open>The listener's test on the upper-case type is the test for a spelling of the word.\<close>

lemma upper_is_ERROR: "toUpperCase ty = ''ERROR'' \<longleftrightarrow> same_ignoring_case ty ''error''"
  by (simp add: same_ignoring_case_def lower_error)
     (simp add: toUpperCase_def toLowerCase_def map_eq_Cons_conv upper_char_eq lower_char_eq)

lemma upper_is_WARNING: "toUpperCase ty = ''WARNING'' \<longleftrightarrow> same_ignoring_case ty ''warning''"
  by (simp add: same_ignoring_case_def lower_warning)
     (simp add: toUpperCase_def toLowerCase_def map_eq_Cons_conv upper_char_eq lower_char_eq)

lemma not_both_words: "same_ignoring_case ty ''error'' \<Longrightarrow> \<not> same_ignoring_case ty ''warning''"
  by (simp add: same_ignoring_case_def lower_error lower_warning)

text \<open>
  C8. A console message whose type is a spelling of "error", in any mix of cases,
  becomes a record of level ERROR and adds one to \<^verbatim>\<open>errors\<close>; a spelling of "warning"
  becomes WARN and adds one to \<^verbatim>\<open>warnings\<close>; any other type becomes INFO and changes
  no counter. Whatever the state, the message appends exactly one record, and
  \<^verbatim>\<open>reportedErrors\<close> is neither read nor changed.
\<close>

theorem console_level_mapping:
  "messages (deliver pf (Console ty url ln cn body) clk s)
     = messages s @
       [\<lparr> timestamp = getTimestamp s (fst clk),
           level = (if same_ignoring_case ty ''error'' then ERROR
                    else if same_ignoring_case ty ''warning'' then WARN else INFO),
           location = formatLocation s url ln cn, msg_text = body, time = snd clk \<rparr>]
   \<and> errors (deliver pf (Console ty url ln cn body) clk s)
     = (if same_ignoring_case ty ''error'' then errors s + 1 else errors s)
   \<and> warnings (deliver pf (Console ty url ln cn body) clk s)
     = (if same_ignoring_case ty ''warning'' then warnings s + 1 else warnings s)
   \<and> reportedErrors (deliver pf (Console ty url ln cn body) clk s) = reportedErrors s"
  using not_both_words [of ty]
  by (auto simp: on_console_effect upper_is_ERROR upper_is_WARNING)

theorem console_level_mapping_witness:
  "messages (deliver utc_host (Console ''WaRnInG'' None Absent Absent ''careful'') (40, 41)
               (ConsoleCapture quiet 0))
     = [\<lparr> timestamp = ''[00.04]'', level = WARN, location = [], msg_text = ''careful'',
           time = 41 \<rparr>]
   \<and> errors (deliver utc_host (Console ''WaRnInG'' None Absent Absent ''careful'') (40, 41)
               (ConsoleCapture quiet 0)) = 0
   \<and> warnings (deliver utc_host (Console ''WaRnInG'' None Absent Absent ''careful'') (40, 41)
               (ConsoleCapture quiet 0)) = 1
   \<and> reportedErrors (deliver utc_host (Console ''WaRnInG'' None Absent Absent ''careful'')
               (40, 41) (ConsoleCapture quiet 0)) = {}"
proof -
  have w: "same_ignoring_case ''WaRnInG'' ''warning''"
    by (simp add: same_ignoring_case_def toLowerCase_def lower_char_def lower_letters_def
          upper_letters_def)
  have e: "\<not> same_ignoring_case ''WaRnInG'' ''error''"
    by (simp add: same_ignoring_case_def toLowerCase_def)
  show ?thesis
    using console_level_mapping
      [where pf = utc_host and ty = "''WaRnInG''" and url = None and ln = Absent
         and cn = Absent and body = "''careful''" and clk = "(40, 41)"
         and s = "ConsoleCapture quiet 0"]
    by (simp add: w e quiet_capture getTimestamp_def stamp_40 formatLocation_def)
qed

section \<open>An end-to-end scenario\<close>

text \<open>
  C3. An instance made with \<^verbatim>\<open>autoLog: false\<close> receives a console message of type
  \<^verbatim>\<open>log\<close>, one of type \<^verbatim>\<open>warning\<close>, a 404 response for \<^verbatim>\<open>/a.js\<close>, a second 404
  response for \<^verbatim>\<open>/a.js\<close>, and an uncaught exception with the message
  \<^verbatim>\<open>x is not defined\<close> and no stack. Then \<^verbatim>\<open>getSummary\<close> gives 4 messages, 2 errors and
  1 warning; the records have the levels INFO, WARN, ERROR, ERROR; and the record of the
  exception, the last one, has the text \<^verbatim>\<open>Uncaught: x is not defined\<close> and an empty
  location. Clock readings, locations, texts and status texts are arbitrary.
\<close>

theorem end_to_end_scenario:
  "getSummary
     (run pf (attachConsoleCapture quiet t0)
        [Deliver (Console ''log'' u1 l1 c1 x1) k1,
         Deliver (Console ''warning'' u2 l2 c2 x2) k2,
         Deliver (Response ''/a.js'' 404 st3) k3,
         Deliver (Response ''/a.js'' 404 st4) k4,
         Deliver (PageError None ''x is not defined'') k5]) now
   = (4, 2, 1, seconds_toFixed 1 (now - t0))
   \<and> map level (messages
        (run pf (attachConsoleCapture quiet t0)
        [Deliver (Console ''log'' u1 l1 c1 x1) k1,
         Deliver (Console ''warning'' u2 l2 c2 x2) k2,
         Deliver (Response ''/a.js'' 404 st3) k3,
         Deliver (Response ''/a.js'' 404 st4) k4,
         Deliver (PageError None ''x is not defined'') k5])) = [INFO, WARN, ERROR, ERROR]
   \<and> map msg_text (messages
        (run pf (attachConsoleCapture quiet t0)
        [Deliver (Console ''log'' u1 l1 c1 x1) k1,
         Deliver (Console ''warning'' u2 l2 c2 x2) k2,
         Deliver (Response ''/a.js'' 404 st3) k3,
         Deliver (Response ''/a.js'' 404 st4) k4,
         Deliver (PageError None ''x is not defined'') k5]))
       = [x1, x2, ''HTTP 404 ('' @ st3 @ '')'', ''Uncaught: x is not defined'']
   \<and> location (last (messages
        (run pf (attachConsoleCapture quiet t0)
        [Deliver (Console ''log'' u1 l1 c1 x1) k1,
         Deliver (Console ''warning'' u2 l2 c2 x2) k2,
         Deliver (Response ''/a.js'' 404 st3) k3,
         Deliver (Response ''/a.js'' 404 st4) k4,
         Deliver (PageError None ''x is not defined'') k5]))) = []"
  by (simp add: run_def on_console_effect on_pageerror_effect on_response_effect
        upper_log upper_warning startsWith_def frame_tail_def getSummary_def show_int_404
        attach_quiet)

theorem end_to_end_scenario_witness:
  "getSummary
     (run utc_host (attachConsoleCapture quiet 1000)
        [Deliver (Console ''log'' (Some ''/app.js'') (Num 3) (Num 7) ''ready'') (1040, 1040),
         Deliver (Console ''warning'' None Absent Absent ''slow'') (1050, 1050),
         Deliver (Response ''/a.js'' 404 ''Not Found'') (1060, 1060),
         Deliver (Response ''/a.js'' 404 ''Not Found'') (1070, 1070),
         Deliver (PageError None ''x is not defined'') (1080, 1080)]) 2000
   = (4, 2, 1, seconds_toFixed 1 (2000 - 1000))
   \<and> map level (messages
        (run utc_host (attachConsoleCapture quiet 1000)
        [Deliver (Console ''log'' (Some ''/app.js'') (Num 3) (Num 7) ''ready'') (1040, 1040),
         Deliver (Console ''warning'' None Absent Absent ''slow'') (1050, 1050),
         Deliver (Response ''/a.js'' 404 ''Not Found'') (1060, 1060),
         Deliver (Response ''/a.js'' 404 ''Not Found'') (1070, 1070),
         Deliver (PageError None ''x is not defined'') (1080, 1080)]))
       = [INFO, WARN, ERROR, ERROR]
   \<and> map msg_text (messages
        (run utc_host (attachConsoleCapture quiet 1000)
        [Deliver (Console ''log'' (Some ''/app.js'') (Num 3) (Num 7) ''ready'') (1040, 1040),
         Deliver (Console ''warning'' None Absent Absent ''slow'') (1050, 1050),
         Deliver (Response ''/a.js'' 404 ''Not Found'') (1060, 1060),
         Deliver (Response ''/a.js'' 404 ''Not Found'') (1070, 1070),
         Deliver (PageError None ''x is not defined'') (1080, 1080)]))
       = [''ready'', ''slow'', ''HTTP 404 ('' @ ''Not Found'' @ '')'',
          ''Uncaught: x is not defined'']
   \<and> location (last (messages
        (run utc_host (attachConsoleCapture quiet 1000)
        [Deliver (Console ''log'' (Some ''/app.js'') (Num 3) (Num 7) ''ready'') (1040, 1040),
         Deliver (Console ''warning'' None Absent Absent ''slow'') (1050, 1050),
         Deliver (Response ''/a.js'' 404 ''Not Found'') (1060, 1060),
         Deliver (Response ''/a.js'' 404 ''Not Found'') (1070, 1070),
         Deliver (PageError None ''x is not defined'') (1080, 1080)]))) = []"
  by (rule end_to_end_scenario)

section \<open>Locations\<close>

lemma replace_first_prefix:
  "startsWith u pat \<Longrightarrow> replace_first pat rep u = rep @ drop (length pat) u"
  by (cases u) (auto simp: startsWith_def)



lemma occurs_in_iff: "occurs_in pat u \<longleftrightarrow> (\<exists>a b. u = a @ pat @ b)"
proof (induction u)
  case Nil
  show ?case by auto
next
  case (Cons c cs)
  show ?case
  proof
    assume "occurs_in pat (c # cs)"
    then consider "startsWith (c # cs) pat" | "occurs_in pat cs" by auto
    then show "\<exists>a b. c # cs = a @ pat @ b"
    proof cases
      case 1
      then have "c # cs = [] @ pat @ drop (length pat) (c # cs)"
        by (metis append_Nil append_take_drop_id startsWith_def)
      then show ?thesis by blast
    next
      case 2
      with Cons.IH obtain a b where "cs = a @ pat @ b" by blast
      then have "c # cs = (c # a) @ pat @ b" by simp
      then show ?thesis by blast
    qed
  next
    assume "\<exists>a b. c # cs = a @ pat @ b"
    then obtain a b where ab: "c # cs = a @ pat @ b" by blast
    show "occurs_in pat (c # cs)"
    proof (cases a)
      case Nil
      with ab have "startsWith (c # cs) pat" by (simp add: startsWith_def)
      then show ?thesis by simp
    next
      case (Cons x a')
      with ab have "cs = a' @ pat @ b" by simp
      with Cons.IH have "occurs_in pat cs" by blast
      then show ?thesis by simp
    qed
  qed
qed



lemma quiet_at_capture:
  "ConsoleCapture (quiet_at b) t0 =
     \<lparr> baseUrl = b, autoLog = False, verbose = False, saveToFile = False,
       filePrefix = ''console-capture'', startTime = t0, messages = [], errors = 0,
       warnings = 0, reportedErrors = {}, options_baseUrl = Some b, navListener = False,
       console = [] \<rparr>"
  by (simp add: ConsoleCapture_def quiet_at_def quiet_def)

lemma show_int_small:
  "show_int 3 = ''3''" "show_int 5 = ''5''" "show_int 10 = ''10''"
  by (simp_all add: show_int_def digits.simps digit_char_def)



section \<open>The location of a failed resource\<close>

text \<open>
  C1. A response with a status of 400 or more whose URL is not yet in
  \<^verbatim>\<open>reportedErrors\<close> adds the URL as it came (before any stripping) to the set, adds one
  to \<^verbatim>\<open>errors\<close> and appends one ERROR record with the text
  \<^verbatim>\<open>HTTP <status> (<statusText>)\<close>. A response below 400, or for a URL already in the
  set, leaves everything as it was; and once a response of 400 or more was seen for a
  URL, whatever events and reports follow, a later response for that URL changes
  nothing. The location of the record is the URL itself when \<^verbatim>\<open>baseUrl\<close> is empty, and
  otherwise the URL with the first occurrence of \<^verbatim>\<open>baseUrl\<close> cut out and nothing more:
  for a URL that starts with \<^verbatim>\<open>baseUrl\<close> it is the rest of the URL, its leading slash
  included. \<^verbatim>\<open>_formatLocation\<close> drops that slash and this listener does not, so the
  location is not the normalized one: it is the normalized one only once a leading
  slash is taken off it. With \<^verbatim>\<open>baseUrl\<close> \<^verbatim>\<open>https://example.com\<close>, a 404 for
  \<^verbatim>\<open>https://example.com/missing.js\<close> is located at \<^verbatim>\<open>/missing.js\<close>, where
  \<^verbatim>\<open>_formatLocation\<close> gives \<^verbatim>\<open>missing.js\<close> and the module's documented output shows
  such a record without the slash.
\<close>

theorem failed_resource_dedup:
  "(400 \<le> status \<and> url \<notin> reportedErrors s \<longrightarrow>
      reportedErrors (deliver pf (Response url status st) clk s) = insert url (reportedErrors s)
    \<and> errors (deliver pf (Response url status st) clk s) = errors s + 1
    \<and> warnings (deliver pf (Response url status st) clk s) = warnings s
    \<and> messages (deliver pf (Response url status st) clk s) =
        messages s @ [\<lparr> timestamp = getTimestamp s (fst clk), level = ERROR,
                        location = (if baseUrl s = [] then url
                                    else replace_first (baseUrl s) [] url),
                        msg_text = ''HTTP '' @ show_int status @ '' ('' @ st @ '')'',
                        time = snd clk \<rparr>])
   \<and> (status < 400 \<or> url \<in> reportedErrors s \<longrightarrow>
        deliver pf (Response url status st) clk s = s)
   \<and> (400 \<le> status \<longrightarrow>
        deliver pf (Response url status' st') clk'
          (run pf (deliver pf (Response url status st) clk s) cs)
        = run pf (deliver pf (Response url status st) clk s) cs)
   \<and> (baseUrl s \<noteq> [] \<and> startsWith url (baseUrl s) \<longrightarrow>
        replace_first (baseUrl s) [] url = drop (length (baseUrl s)) url)
   \<and> (baseUrl s \<noteq> [] \<and> url \<noteq> [] \<longrightarrow>
        formatLocation s (Some url) Absent Absent
        = strip_leading_slash (replace_first (baseUrl s) [] url))"
proof (intro conjI impI)
  assume "400 \<le> status"
  then have "url \<in> reportedErrors (deliver pf (Response url status st) clk s)"
    by (simp add: on_response_def logMessage_fields)
  then have "url \<in> reportedErrors (run pf (deliver pf (Response url status st) clk s) cs)"
    using run_reported_mono by blast
  then show "deliver pf (Response url status' st') clk'
          (run pf (deliver pf (Response url status st) clk s) cs)
        = run pf (deliver pf (Response url status st) clk s) cs"
    by (simp add: on_response_seen)
next
  assume "baseUrl s \<noteq> [] \<and> startsWith url (baseUrl s)"
  then show "replace_first (baseUrl s) [] url = drop (length (baseUrl s)) url"
    using replace_first_prefix [of url "baseUrl s" "[]"] by simp
next
  assume "baseUrl s \<noteq> [] \<and> url \<noteq> []"
  then show "formatLocation s (Some url) Absent Absent
        = strip_leading_slash (replace_first (baseUrl s) [] url)"
    by (simp add: formatLocation_def)
qed (auto simp: on_response_def logMessage_fields logMessage_messages displayUrl_def
       getTimestamp_def)

theorem failed_resource_dedup_witness:
  "(400::int) \<le> 404
   \<and> ''https://example.com/missing.js''
       \<notin> reportedErrors (ConsoleCapture (quiet_at ''https://example.com'') 0)
   \<and> startsWith ''https://example.com/missing.js''
         (baseUrl (ConsoleCapture (quiet_at ''https://example.com'') 0))
   \<and> errors (deliver utc_host (Response ''https://example.com/missing.js'' 404 ''Not Found'')
        (40, 40) (ConsoleCapture (quiet_at ''https://example.com'') 0)) = 1
   \<and> reportedErrors
        (deliver utc_host (Response ''https://example.com/missing.js'' 404 ''Not Found'')
           (40, 40) (ConsoleCapture (quiet_at ''https://example.com'') 0))
      = {''https://example.com/missing.js''}
   \<and> messages (deliver utc_host (Response ''https://example.com/missing.js'' 404 ''Not Found'')
        (40, 40) (ConsoleCapture (quiet_at ''https://example.com'') 0))
      = [\<lparr> timestamp = ''[00.04]'', level = ERROR, location = ''/missing.js'',
            msg_text = ''HTTP 404 (Not Found)'', time = 40 \<rparr>]
   \<and> formatLocation (ConsoleCapture (quiet_at ''https://example.com'') 0)
        (Some ''https://example.com/missing.js'') Absent Absent = ''missing.js''
   \<and> deliver utc_host (Response ''https://example.com/missing.js'' 500 ''Server Error'')
        (90, 90)
        (run utc_host
           (deliver utc_host (Response ''https://example.com/missing.js'' 404 ''Not Found'')
              (40, 40) (ConsoleCapture (quiet_at ''https://example.com'') 0))
           [Render None (60, 60)])
      = run utc_host
           (deliver utc_host (Response ''https://example.com/missing.js'' 404 ''Not Found'')
              (40, 40) (ConsoleCapture (quiet_at ''https://example.com'') 0))
           [Render None (60, 60)]
   \<and> (200::int) < 400
   \<and> deliver utc_host (Response ''/missing.js'' 200 ''OK'') (50, 50) (ConsoleCapture quiet 0)
      = ConsoleCapture quiet 0
   \<and> messages (deliver utc_host (Response ''/missing.js'' 404 ''Not Found'') (40, 40)
        (ConsoleCapture quiet 0))
      = [\<lparr> timestamp = ''[00.04]'', level = ERROR, location = ''/missing.js'',
            msg_text = ''HTTP 404 (Not Found)'', time = 40 \<rparr>]"
proof -
  let ?s = "ConsoleCapture (quiet_at ''https://example.com'') 0"
  let ?u = "''https://example.com/missing.js''"
  have pre: "startsWith ?u (baseUrl ?s)"
    by (simp add: quiet_at_capture startsWith_def)
  have cut: "drop (length (baseUrl ?s)) ?u = ''/missing.js''"
    by (simp add: quiet_at_capture)
  have fresh: "?u \<notin> reportedErrors ?s" "baseUrl ?s \<noteq> []" "startTime ?s = 0"
    "messages ?s = []" "errors ?s = 0" "reportedErrors ?s = {}"
    by (simp_all add: quiet_at_capture)
  note t = failed_resource_dedup
      [where status = 404 and url = ?u and s = ?s and pf = utc_host and st = "''Not Found''"
         and clk = "(40, 40)" and status' = 500 and st' = "''Server Error''"
         and clk' = "(90, 90)" and cs = "[Render None (60, 60)]"]
  from t pre fresh(2) have loc: "replace_first (baseUrl ?s) [] ?u = ''/missing.js''"
    using cut by simp
  from t fresh(2) have norm: "formatLocation ?s (Some ?u) Absent Absent = ''missing.js''"
    using loc by (simp add: strip_leading_slash_def)
  from t fresh have rec:
    "errors (deliver utc_host (Response ?u 404 ''Not Found'') (40, 40) ?s) = 1"
    "reportedErrors (deliver utc_host (Response ?u 404 ''Not Found'') (40, 40) ?s) = {?u}"
    "messages (deliver utc_host (Response ?u 404 ''Not Found'') (40, 40) ?s)
      = [\<lparr> timestamp = ''[00.04]'', level = ERROR, location = ''/missing.js'',
            msg_text = ''HTTP 404 (Not Found)'', time = 40 \<rparr>]"
    using loc by (simp_all add: getTimestamp_def stamp_40 show_int_404)
  from t have later:
    "deliver utc_host (Response ?u 500 ''Server Error'') (90, 90)
        (run utc_host (deliver utc_host (Response ?u 404 ''Not Found'') (40, 40) ?s)
           [Render None (60, 60)])
      = run utc_host (deliver utc_host (Response ?u 404 ''Not Found'') (40, 40) ?s)
           [Render None (60, 60)]"
    by simp
  have below: "deliver utc_host (Response ''/missing.js'' 200 ''OK'') (50, 50)
        (ConsoleCapture quiet 0) = ConsoleCapture quiet 0"
    using failed_resource_dedup
      [where status = 200 and url = "''/missing.js''" and s = "ConsoleCapture quiet 0"
         and pf = utc_host and st = "''OK''" and clk = "(50, 50)"]
    by simp
  have plain: "messages (deliver utc_host (Response ''/missing.js'' 404 ''Not Found'') (40, 40)
        (ConsoleCapture quiet 0))
      = [\<lparr> timestamp = ''[00.04]'', level = ERROR, location = ''/missing.js'',
            msg_text = ''HTTP 404 (Not Found)'', time = 40 \<rparr>]"
    using failed_resource_dedup
      [where status = 404 and url = "''/missing.js''" and s = "ConsoleCapture quiet 0"
         and pf = utc_host and st = "''Not Found''" and clk = "(40, 40)"]
    by (simp add: quiet_capture getTimestamp_def stamp_40 show_int_404)
  show ?thesis
    using pre fresh(1) norm rec later below plain by simp
qed

section \<open>The base URL\<close>

lemma deliver_baseUrl: "baseUrl (deliver pf ev clk s) = baseUrl s"
  by (cases ev)
     (simp_all add: on_console_effect on_pageerror_effect on_response_effect
        on_framenavigated_effect)

lemma perform_baseUrl: "baseUrl (perform pf s c) = baseUrl s"
  by (cases c) (simp_all add: deliver_baseUrl getOutput_snd)

lemma run_baseUrl: "baseUrl (run pf s cs) = baseUrl s"
  by (induction cs arbitrary: s) (simp_all add: run_Nil run_Cons perform_baseUrl)

lemma logMessage_listener_off:
  "\<not> navListener s \<Longrightarrow> \<not> navListener (logMessage lv loc body clk s)"
  by (simp add: logMessage_fields)

lemma deliver_listener_off:
  "\<not> navListener s \<Longrightarrow>
   \<not> navListener (deliver pf ev clk s)
   \<and> options_baseUrl (deliver pf ev clk s) = options_baseUrl s"
  by (cases ev)
     (simp_all add: on_console_def on_pageerror_def on_response_def on_framenavigated_def
        logMessage_fields Let_def)

lemma perform_listener_off:
  "\<not> navListener s \<Longrightarrow>
   \<not> navListener (perform pf s c) \<and> options_baseUrl (perform pf s c) = options_baseUrl s"
  by (cases c) (simp_all add: deliver_listener_off getOutput_snd)

lemma run_listener_off:
  "\<not> navListener s \<Longrightarrow>
   \<not> navListener (run pf s cs) \<and> options_baseUrl (run pf s cs) = options_baseUrl s"
proof (induction cs arbitrary: s)
  case Nil
  then show ?case by (simp add: run_Nil)
next
  case (Cons c cs)
  from perform_listener_off [OF Cons.prems, of pf c]
  show ?case unfolding run_Cons using Cons.IH [of "perform pf s c"] by simp
qed

lemma navigation_removes_listener: "\<not> navListener (on_framenavigated pf is_main url s)"
  by (simp add: on_framenavigated_def Let_def split: option.splits)

lemma plain_url_example:
  "plain_url ''https://example.com/index.html'' = Some (''https:'', ''example.com'')"
  by (simp add: plain_url_def startsWith_def)

text \<open>
  C5. \<^verbatim>\<open>attachConsoleCapture\<close> is meant to learn the prefix from the first navigation
  when the caller gave none. What the code does: the one-shot listener assigns
  \<^verbatim>\<open>options.baseUrl\<close>, and after the first navigation nothing assigns it again; but the
  instance copied \<^verbatim>\<open>options.baseUrl || ''\<close> when it was constructed and strips only
  that copy, which no event changes. So after a navigation to
  \<^verbatim>\<open>https://example.com/index.html\<close> the options hold \<^verbatim>\<open>https://example.com\<close>, and a
  console message from \<^verbatim>\<open>https://example.com/app.js\<close>, line 10, column 5, is still
  located at the full URL.
\<close>

theorem learned_prefix_never_stripped:
  "options_baseUrl
     (run pf (deliver pf (FrameNavigated is_main url) clk (attachConsoleCapture opts t0)) cs)
   = options_baseUrl (deliver pf (FrameNavigated is_main url) clk (attachConsoleCapture opts t0))
   \<and> baseUrl (run pf (attachConsoleCapture opts t0) cs)
     = (case opt_baseUrl opts of Some b \<Rightarrow> b | None \<Rightarrow> [])
   \<and> options_baseUrl
       (run utc_host (attachConsoleCapture quiet 0)
          [Deliver (FrameNavigated True ''https://example.com/index.html'') (5, 5)])
     = Some ''https://example.com''
   \<and> map location (messages
       (run utc_host (attachConsoleCapture quiet 0)
          [Deliver (FrameNavigated True ''https://example.com/index.html'') (5, 5),
           Deliver (Console ''log'' (Some ''https://example.com/app.js'') (Num 10) (Num 5)
                      ''hello'') (40, 40)]))
     = [''https://example.com/app.js:10:5'']"
proof (intro conjI)
  show "options_baseUrl
     (run pf (deliver pf (FrameNavigated is_main url) clk (attachConsoleCapture opts t0)) cs)
   = options_baseUrl (deliver pf (FrameNavigated is_main url) clk (attachConsoleCapture opts t0))"
    using run_listener_off [of "deliver pf (FrameNavigated is_main url) clk
      (attachConsoleCapture opts t0)" pf cs] navigation_removes_listener
    by simp
  show "baseUrl (run pf (attachConsoleCapture opts t0) cs)
     = (case opt_baseUrl opts of Some b \<Rightarrow> b | None \<Rightarrow> [])"
    by (simp add: run_baseUrl attachConsoleCapture_def ConsoleCapture_def Let_def)
  show "options_baseUrl
       (run utc_host (attachConsoleCapture quiet 0)
          [Deliver (FrameNavigated True ''https://example.com/index.html'') (5, 5)])
     = Some ''https://example.com''"
    by (simp add: run_def attach_quiet on_framenavigated_def utc_host_def plain_url_example
          startsWith_def)
  show "map location (messages
       (run utc_host (attachConsoleCapture quiet 0)
          [Deliver (FrameNavigated True ''https://example.com/index.html'') (5, 5),
           Deliver (Console ''log'' (Some ''https://example.com/app.js'') (Num 10) (Num 5)
                      ''hello'') (40, 40)]))
     = [''https://example.com/app.js:10:5'']"
    by (simp add: run_def on_console_effect on_framenavigated_effect attach_quiet
          formatLocation_def show_int_small)
qed

section \<open>Timestamps\<close>



lemma digits_nonempty: "digits n \<noteq> []"
  by (subst digits.simps) simp







section \<open>Rendering\<close>

lemma deliver_messages:
  "messages (deliver pf ev clk s) = messages s
   \<or> (\<exists>m. messages (deliver pf ev clk s) = messages s @ [m] \<and> time m = snd clk)"
  by (cases ev)
     (simp_all add: on_console_effect on_pageerror_effect on_response_effect
        on_framenavigated_effect)

lemma sort_key_time_sorted:
  "sorted (map time ms) \<Longrightarrow> sort_key time ms = ms"
  by (rule sort_key_id_if_sorted)

lemma run_sorted:
  "sorted (map time (messages s) @ record_times cs) \<Longrightarrow>
   sorted (map time (messages (run pf s cs)))"
proof (induction cs arbitrary: s)
  case Nil
  then show ?case by (simp add: run_Nil)
next
  case (Cons c cs)
  show ?case
  proof (cases c)
    case (Deliver ev clk)
    from Cons.prems Deliver
    have pre: "sorted (map time (messages s) @ snd clk # record_times cs)" by simp
    have "sorted (map time (messages (deliver pf ev clk s)) @ record_times cs)"
      using deliver_messages [of pf ev clk s]
    proof
      assume "messages (deliver pf ev clk s) = messages s"
      with pre show ?thesis by (auto simp: sorted_append)
    next
      assume "\<exists>m. messages (deliver pf ev clk s) = messages s @ [m] \<and> time m = snd clk"
      with pre show ?thesis by auto
    qed
    then show ?thesis
      using Cons.IH [of "deliver pf ev clk s"] Deliver by (simp add: run_Cons)
  next
    case (Render title clk)
    from Cons.prems have "sorted (map time (messages s))" by (simp add: sorted_append)
    then have "perform pf s c = s"
      using Render by (simp add: getOutput_snd sort_key_time_sorted)
    with Cons.prems Render show ?thesis
      using Cons.IH [of s] by (simp add: run_Cons)
  qed
qed

lemma fresh_messages: "messages (attachConsoleCapture opts t0) = []"
  by (simp add: attachConsoleCapture_def ConsoleCapture_def Let_def)

text \<open>
  C6, as the code has it. \<^verbatim>\<open>getOutput\<close> changes neither \<^verbatim>\<open>errors\<close> nor \<^verbatim>\<open>warnings\<close> nor
  \<^verbatim>\<open>reportedErrors\<close>; the one field it assigns is \<^verbatim>\<open>messages\<close>, which it sorts in place,
  stably, on \<^verbatim>\<open>time\<close>. The records are the same ones after the call. Their order is the
  same too when they were stored in non-decreasing order of \<^verbatim>\<open>time\<close>, and that is so
  after any events and reports since construction during which the clock readings
  stored in \<^verbatim>\<open>time\<close> never went backwards: then the call leaves the whole state as it
  was.
\<close>

theorem render_sorts_in_place:
  "errors (snd (getOutput pf title clk s)) = errors s
   \<and> warnings (snd (getOutput pf title clk s)) = warnings s
   \<and> reportedErrors (snd (getOutput pf title clk s)) = reportedErrors s
   \<and> snd (getOutput pf title clk s) = s \<lparr> messages := sort_key time (messages s) \<rparr>
   \<and> mset (messages (snd (getOutput pf title clk s))) = mset (messages s)
   \<and> (sorted (map time (messages s)) \<longrightarrow> snd (getOutput pf title clk s) = s)
   \<and> (sorted (record_times cs) \<longrightarrow>
        snd (getOutput pf title clk (run pf (attachConsoleCapture opts t0) cs))
        = run pf (attachConsoleCapture opts t0) cs)"
proof (intro conjI impI)
  assume "sorted (record_times cs)"
  then have "sorted (map time (messages (run pf (attachConsoleCapture opts t0) cs)))"
    using run_sorted [of "attachConsoleCapture opts t0" cs pf] by (simp add: fresh_messages)
  then show "snd (getOutput pf title clk (run pf (attachConsoleCapture opts t0) cs))
        = run pf (attachConsoleCapture opts t0) cs"
    by (simp add: getOutput_snd sort_key_time_sorted)
qed (simp_all add: getOutput_snd sort_key_time_sorted)

text \<open>
  C6 as the specification states it fails when the wall clock steps back between two
  events: the record stored second carries the smaller \<^verbatim>\<open>time\<close>, and \<^verbatim>\<open>getOutput\<close>
  moves it in front of the first in the stored array.
\<close>

theorem render_sorts_in_place_counterexample:
  "map msg_text (messages
     (run utc_host (ConsoleCapture quiet 1000)
        [Deliver (Console ''log'' None Absent Absent ''first'') (1010, 1010),
         Deliver (Console ''log'' None Absent Absent ''second'') (1005, 1005)]))
   = [''first'', ''second'']
   \<and> map msg_text (messages (snd (getOutput utc_host None (1020, 1020)
     (run utc_host (ConsoleCapture quiet 1000)
        [Deliver (Console ''log'' None Absent Absent ''first'') (1010, 1010),
         Deliver (Console ''log'' None Absent Absent ''second'') (1005, 1005)]))))
   = [''second'', ''first'']"
  by (simp add: run_def on_console_effect upper_log getOutput_snd quiet_capture)

theorem render_sorts_in_place_witness:
  "sorted (record_times
     [Deliver (Console ''log'' None Absent Absent ''first'') (1010, 1010),
      Deliver (Console ''log'' None Absent Absent ''second'') (1015, 1016)])
   \<and> snd (getOutput utc_host None (1020, 1020)
       (run utc_host (attachConsoleCapture quiet 1000)
         [Deliver (Console ''log'' None Absent Absent ''first'') (1010, 1010),
          Deliver (Console ''log'' None Absent Absent ''second'') (1015, 1016)]))
     = run utc_host (attachConsoleCapture quiet 1000)
         [Deliver (Console ''log'' None Absent Absent ''first'') (1010, 1010),
          Deliver (Console ''log'' None Absent Absent ''second'') (1015, 1016)]
   \<and> sorted (map time (messages
        (deliver utc_host (Response ''/a.js'' 404 ''Not Found'') (40, 41)
           (ConsoleCapture quiet 0))))
   \<and> snd (getOutput utc_host None (1020, 1020)
        (deliver utc_host (Response ''/a.js'' 404 ''Not Found'') (40, 41)
           (ConsoleCapture quiet 0)))
     = deliver utc_host (Response ''/a.js'' 404 ''Not Found'') (40, 41)
           (ConsoleCapture quiet 0)"
proof -
  have steady: "sorted (record_times
     [Deliver (Console ''log'' None Absent Absent ''first'') (1010, 1010),
      Deliver (Console ''log'' None Absent Absent ''second'') (1015, 1016)])"
    by simp
  have one: "sorted (map time (messages
        (deliver utc_host (Response ''/a.js'' 404 ''Not Found'') (40, 41)
           (ConsoleCapture quiet 0))))"
    by (simp add: on_response_effect quiet_capture)
  show ?thesis
    using steady one render_sorts_in_place
        [where pf = utc_host and title = None and clk = "(1020, 1020)" and opts = quiet
           and ?t0.0 = 1000
           and cs = "[Deliver (Console ''log'' None Absent Absent ''first'') (1010, 1010),
                      Deliver (Console ''log'' None Absent Absent ''second'') (1015, 1016)]"
           and s = "deliver utc_host (Response ''/a.js'' 404 ''Not Found'') (40, 41)
                      (ConsoleCapture quiet 0)"]
    by blast
qed

section \<open>Rendering twice\<close>

lemma sort_key_twice: "sort_key f (sort_key f xs) = sort_key f xs"
  by (simp add: sort_key_id_if_sorted)

lemma getOutput_fst:
  "fst (getOutput pf title clk s)
   = report_head title s @ seconds_toFixed 1 (fst clk - startTime s) @ report_counts s
       @ concat (map render_line (sort_key time (messages s))) @ report_trailer s
       @ report_footer pf (snd clk)"
  by (simp add: getOutput_def Let_def)

lemma report_parts_after_render:
  "report_head title (snd (getOutput pf t clk s)) = report_head title s"
  "report_counts (snd (getOutput pf t clk s)) = report_counts s"
  "report_trailer (snd (getOutput pf t clk s)) = report_trailer s"
  "startTime (snd (getOutput pf t clk s)) = startTime s"
  by (simp_all add: getOutput_snd report_head_def report_counts_def report_trailer_def)

text \<open>
  C9, as the code has it. Two calls of \<^verbatim>\<open>getOutput\<close> with the same title and no event
  between them give the same text except in two places: the elapsed time of the
  second header line and the completion line at the end, which prints the date and
  the time of day of the call. What \<^verbatim>\<open>getSummary\<close> returns at any one instant is the
  same before, between and after the two calls.
\<close>

theorem render_twice:
  "fst (getOutput pf title clk1 s)
   = report_head title s @ seconds_toFixed 1 (fst clk1 - startTime s) @ report_counts s
       @ concat (map render_line (sort_key time (messages s))) @ report_trailer s
       @ report_footer pf (snd clk1)
   \<and> fst (getOutput pf title clk2 (snd (getOutput pf title clk1 s)))
   = report_head title s @ seconds_toFixed 1 (fst clk2 - startTime s) @ report_counts s
       @ concat (map render_line (sort_key time (messages s))) @ report_trailer s
       @ report_footer pf (snd clk2)
   \<and> getSummary (snd (getOutput pf title clk1 s)) now = getSummary s now
   \<and> getSummary (snd (getOutput pf title clk2 (snd (getOutput pf title clk1 s)))) now
     = getSummary s now"
  by (simp add: getOutput_fst report_parts_after_render)
     (simp add: getOutput_snd sort_key_twice getSummary_def)

lemma civil_days: "civil 20412 = (2025, 11, 20)" "civil 20413 = (2025, 11, 21)"
  by (simp_all add: civil_def Let_def)
lemma pad_int_small:
  "pad_int 4 2025 = ''2025''" "pad_int 2 11 = ''11''" "pad_int 2 20 = ''20''"
  "pad_int 2 21 = ''21''"
  by (simp_all add: pad_int_def padStart_def digits.simps digit_char_def)
lemma iso_dates:
  "take 10 (toISOString 1763683199990) = ''2025-11-20''"
  "take 10 (toISOString 1763683200020) = ''2025-11-21''"
  by (simp_all add: toISOString_def civil_days pad_int_small)

lemma round_fixed_tenths: "round_fixed 1 (div1000 10) = 0" "round_fixed 1 (div1000 40) = 0"
  by (simp_all add: round_fixed_def div1000_def bitlen.simps Let_def)

lemma fixed_digits_1_0: "fixed_digits 1 0 = ''0.0''"
  by (simp add: fixed_digits_def digits.simps digit_char_def Let_def)

lemma elapsed_tenths:
  "seconds_toFixed 1 10 = ''0.0''" "seconds_toFixed 1 40 = ''0.0''"
  by (simp_all add: seconds_toFixed_def round_fixed_tenths fixed_digits_1_0 del: One_nat_def)

text \<open>
  C9 as the specification states it fails: with the instance 10 ms old at the first
  call, 10 ms before midnight UTC of 2025-11-20, and 40 ms old at the second, 20 ms
  after midnight, the elapsed field is \<^verbatim>\<open>0.0\<close> in both reports and yet they differ, in
  the date of the completion line.
\<close>

theorem render_twice_counterexample:
  "seconds_toFixed 1 (1763683199990 - startTime (ConsoleCapture quiet 1763683199980))
   = seconds_toFixed 1 (1763683200020 - startTime (ConsoleCapture quiet 1763683199980))
   \<and> fst (getOutput utc_host None (1763683199990, 1763683199990) (ConsoleCapture quiet 1763683199980))
     \<noteq> fst (getOutput utc_host None (1763683200020, 1763683200020)
            (snd (getOutput utc_host None (1763683199990, 1763683199990)
                    (ConsoleCapture quiet 1763683199980))))"
  by (simp add: getOutput_fst report_parts_after_render getOutput_snd quiet_capture
        elapsed_tenths report_footer_def iso_dates del: One_nat_def)

theorem render_twice_witness:
  "fst (getOutput utc_host None (1020, 1021) (ConsoleCapture quiet 1000))
   = report_head None (ConsoleCapture quiet 1000)
       @ seconds_toFixed 1 (1020 - startTime (ConsoleCapture quiet 1000))
       @ report_counts (ConsoleCapture quiet 1000)
       @ concat (map render_line (sort_key time (messages (ConsoleCapture quiet 1000))))
       @ report_trailer (ConsoleCapture quiet 1000)
       @ report_footer utc_host 1021
   \<and> fst (getOutput utc_host None (1030, 1031)
          (snd (getOutput utc_host None (1020, 1021) (ConsoleCapture quiet 1000))))
   = report_head None (ConsoleCapture quiet 1000)
       @ seconds_toFixed 1 (1030 - startTime (ConsoleCapture quiet 1000))
       @ report_counts (ConsoleCapture quiet 1000)
       @ concat (map render_line (sort_key time (messages (ConsoleCapture quiet 1000))))
       @ report_trailer (ConsoleCapture quiet 1000)
       @ report_footer utc_host 1031
   \<and> getSummary (snd (getOutput utc_host None (1020, 1021) (ConsoleCapture quiet 1000))) 1040
     = getSummary (ConsoleCapture quiet 1000) 1040
   \<and> getSummary (snd (getOutput utc_host None (1030, 1031)
          (snd (getOutput utc_host None (1020, 1021) (ConsoleCapture quiet 1000))))) 1040
     = getSummary (ConsoleCapture quiet 1000) 1040"
  using render_twice
      [where pf = utc_host and title = None and ?clk1.0 = "(1020, 1021)"
         and ?clk2.0 = "(1030, 1031)" and s = "ConsoleCapture quiet 1000" and now = 1040]
  by (simp del: One_nat_def)

section \<open>Timestamps are fixed when the record is made\<close>







end
